theory Spec2Isabelle
  imports Complex_Main "HOL-Library.Word"
begin

section \<open>JavaScript strings\<close>

text \<open>
  A JavaScript string is a sequence of UTF-16 code units. The handler in
  \<^verbatim>\<open>src/app/api/generate/route.ts\<close> only trims strings, splits them on a
  character class, joins them and tests them for emptiness, so a list of 16-bit words
  carries everything it observes.
\<close>

type_synonym jschar = "16 word"
type_synonym jsstring = "jschar list"

definition js :: "string \<Rightarrow> jsstring" where
  "js s = map of_char s"

text \<open>
  The code units matched by \<^verbatim>\<open>\s\<close> in a regular expression and removed by
  \<^verbatim>\<open>String.prototype.trim\<close>: ECMAScript WhiteSpace and LineTerminator.
\<close>

definition isWhiteSpace :: "jschar \<Rightarrow> bool" where
  "isWhiteSpace c \<longleftrightarrow>
     c = 0x09 \<or> c = 0x0A \<or> c = 0x0B \<or> c = 0x0C \<or> c = 0x0D \<or> c = 0x20 \<or> c = 0xA0 \<or>
     c = 0x1680 \<or> (0x2000 \<le> c \<and> c \<le> 0x200A) \<or> c = 0x2028 \<or> c = 0x2029 \<or>
     c = 0x202F \<or> c = 0x205F \<or> c = 0x3000 \<or> c = 0xFEFF"

text \<open>The character class \<^verbatim>\<open>[,;\s]\<close> of \<^verbatim>\<open>getEnvKeys\<close>.\<close>

definition isSeparator :: "jschar \<Rightarrow> bool" where
  "isSeparator c \<longleftrightarrow> c = 0x2C \<or> c = 0x3B \<or> isWhiteSpace c"

definition trim :: "jsstring \<Rightarrow> jsstring" where
  "trim s = rev (dropWhile isWhiteSpace (rev (dropWhile isWhiteSpace s)))"

text \<open>\<^verbatim>\<open>Boolean(s)\<close> on a string: only the empty string is falsy.\<close>

definition truthy :: "jsstring \<Rightarrow> bool" where
  "truthy s \<longleftrightarrow> s \<noteq> []"

text \<open>
  \<^verbatim>\<open>s.split(/[,;\s]+/)\<close>: every maximal run of separators is one match; the pieces
  between the matches are returned, with an empty piece before a leading run and after a
  trailing one, and the empty string gives one empty piece.
\<close>

function split_separators :: "jsstring \<Rightarrow> jsstring list" where
  "split_separators [] = [[]]"
| "split_separators (c # cs) =
     (if isSeparator c then [] # split_separators (dropWhile isSeparator cs)
      else (case split_separators cs of
              t # ts \<Rightarrow> (c # t) # ts
            | [] \<Rightarrow> [[c]]))"
  by pat_completeness auto
termination
  by (relation "measure length") (auto simp: le_imp_less_Suc length_dropWhile_le)

fun join :: "jsstring \<Rightarrow> jsstring list \<Rightarrow> jsstring" where
  "join sep [] = []"
| "join sep [x] = x"
| "join sep (x # y # ys) = x @ sep @ join sep (y # ys)"

text \<open>\<^verbatim>\<open>a ?? b\<close> and \<^verbatim>\<open>a || b\<close> on an optional string.\<close>

definition nullish :: "'a option \<Rightarrow> 'a \<Rightarrow> 'a" where
  "nullish a b = (case a of None \<Rightarrow> b | Some v \<Rightarrow> v)"

definition or_else :: "jsstring option \<Rightarrow> jsstring \<Rightarrow> jsstring" where
  "or_else a b = (case a of None \<Rightarrow> b | Some v \<Rightarrow> if truthy v then v else b)"

section \<open>Values the handler receives\<close>

text \<open>What \<^verbatim>\<open>JSON.parse\<close> returns. An object is the list of its own properties.\<close>

datatype json =
    JNull
  | JBool bool
  | JNumber real
  | JString jsstring
  | JArray "json list"
  | JObject "(jsstring \<times> json) list"

record File =
  file_name :: jsstring
  file_type :: jsstring
  file_bytes :: "8 word list"

datatype FormDataEntryValue = EntryString jsstring | EntryFile File

type_synonym FormData = "(jsstring \<times> FormDataEntryValue) list"

definition getAll :: "FormData \<Rightarrow> jsstring \<Rightarrow> FormDataEntryValue list" where
  "getAll formData name = map snd (filter (\<lambda>kv. fst kv = name) formData)"

definition get_entry :: "FormData \<Rightarrow> jsstring \<Rightarrow> FormDataEntryValue option" where
  "get_entry formData name = (case getAll formData name of [] \<Rightarrow> None | v # _ \<Rightarrow> Some v)"

text \<open>
  What the handler takes from the platform rather than from the request: the JSON
  decoder (\<open>None\<close> is its SyntaxError), the two environment variables, and the
  temporary directory with the path concatenation of \<^verbatim>\<open>node:path\<close>.
\<close>

record platform =
  JSON_parse :: "jsstring \<Rightarrow> json option"
  GOOGLE_API_KEYS :: "jsstring option"
  GOOGLE_API_KEY :: "jsstring option"
  tmpdir :: jsstring
  path_join :: "jsstring \<Rightarrow> jsstring \<Rightarrow> jsstring"

text \<open>A thrown value: an \<^verbatim>\<open>Error\<close> with its message, or anything else.\<close>

datatype thrown = ErrorObject jsstring | NonError

text \<open>A TypeError raised by the handler's own code outside its \<^verbatim>\<open>try\<close> block.\<close>

datatype crash = TypeError

section \<open>Credential pool\<close>

definition getEnvKeys :: "platform \<Rightarrow> jsstring list" where
  "getEnvKeys pf =
     (let raw = join (js '','')
                  (filter truthy [nullish (GOOGLE_API_KEYS pf) [], nullish (GOOGLE_API_KEY pf) []])
      in filter truthy (map trim (split_separators raw)))"

definition parseClientKeys :: "platform \<Rightarrow> FormDataEntryValue option \<Rightarrow> jsstring list" where
  "parseClientKeys pf raw =
     (case raw of
        None \<Rightarrow> []
      | Some (EntryFile f) \<Rightarrow> []
      | Some (EntryString s) \<Rightarrow>
          if \<not> truthy s then []
          else (case JSON_parse pf s of
                  None \<Rightarrow> []
                | Some (JArray parsed) \<Rightarrow>
                    filter truthy (map (\<lambda>key. case key of JString k \<Rightarrow> trim k | _ \<Rightarrow> []) parsed)
                | Some _ \<Rightarrow> []))"

definition allKeys :: "platform \<Rightarrow> FormData \<Rightarrow> jsstring list" where
  "allKeys pf formData = getEnvKeys pf @ parseClientKeys pf (get_entry formData (js ''apiKeys''))"

text \<open>
  \<^verbatim>\<open>keys[Math.floor(Math.random() * keys.length)]\<close>, with the random number as an
  argument; an index outside the array reads \<^verbatim>\<open>undefined\<close>.
\<close>

definition pickKey :: "jsstring list \<Rightarrow> real \<Rightarrow> jsstring option" where
  "pickKey keys random =
     (let i = \<lfloor>random * real (length keys)\<rfloor>
      in if 0 \<le> i \<and> nat i < length keys then Some (keys ! nat i) else None)"

section \<open>Responses of the generation service\<close>

record UploadedFile =
  uri :: jsstring
  mimeType :: jsstring

record UploadResponse =
  upload_file :: "UploadedFile option"
  upload_uri :: "jsstring option"
  upload_mimeType :: "jsstring option"

text \<open>
  The member \<^verbatim>\<open>text\<close> of a generation response: a string, or a function, given by
  what calling it does.
\<close>

datatype text_member = TextString jsstring | TextFunction "thrown + jsstring"

record GeminiContentPart =
  part_text :: "jsstring option"

record GeminiContent =
  parts :: "GeminiContentPart list option"

record GeminiCandidate =
  content :: "GeminiContent option"

record GeminiEnvelope =
  envelope_candidates :: "GeminiCandidate list option"

record GeminiResponse =
  response_text :: "text_member option"
  response_response :: "GeminiEnvelope option"
  response_candidates :: "GeminiCandidate list option"

text \<open>\<^verbatim>\<open>candidates?.[0]?.content?.parts\<close>\<close>

definition first_parts :: "GeminiCandidate list option \<Rightarrow> GeminiContentPart list option" where
  "first_parts cands =
     (case cands of
        None \<Rightarrow> None
      | Some [] \<Rightarrow> None
      | Some (c # _) \<Rightarrow> (case content c of None \<Rightarrow> None | Some ct \<Rightarrow> parts ct))"

definition ensureText :: "GeminiResponse option \<Rightarrow> thrown + jsstring" where
  "ensureText response =
     (case response of
        None \<Rightarrow> Inr []
      | Some r \<Rightarrow>
          (case response_text r of
             Some (TextFunction call) \<Rightarrow> call
           | Some (TextString s) \<Rightarrow> Inr s
           | None \<Rightarrow>
               (let ps = nullish
                           (case response_response r of
                              None \<Rightarrow> None
                            | Some e \<Rightarrow> first_parts (envelope_candidates e))
                           (nullish (first_parts (response_candidates r)) [])
                in Inr (join [0x0A]
                          (filter truthy (map (\<lambda>part. nullish (part_text part) []) ps))))))"

section \<open>The request handler\<close>

text \<open>
  The members \<^verbatim>\<open>text\<close> and \<^verbatim>\<open>error\<close> of a result entry are optional; they are
  \<open>entry_text\<close> and \<open>entry_error\<close> here.
\<close>

record ResultEntry =
  filename :: jsstring
  prompt :: jsstring
  entry_text :: "jsstring option"
  entry_error :: "jsstring option"

datatype response_body = ErrorBody jsstring | ResultsBody "ResultEntry list"

record NextResponse =
  status :: nat
  body :: response_body

text \<open>
  What the outside world does for one item of the batch: the random choices, and for each
  call the handler makes, whether it throws (\<open>Inl\<close>, \<open>Some\<close>) or what it returns.
  The calls are functions of the arguments the handler passes.
\<close>

record item_world =
  randomUUID :: jsstring
  arrayBuffer :: "File \<Rightarrow> thrown + 8 word list"
  writeFile :: "jsstring \<Rightarrow> 8 word list \<Rightarrow> thrown option"
  Math_random :: real
  upload :: "jsstring option \<Rightarrow> jsstring \<Rightarrow> thrown + UploadResponse"
  generateContent ::
    "jsstring option \<Rightarrow> jsstring \<Rightarrow> jsstring \<Rightarrow> jsstring \<Rightarrow> jsstring \<Rightarrow> thrown + GeminiResponse option"
  unlink :: "jsstring \<Rightarrow> thrown option"

text \<open>The calls the handler makes to the outside world, with their arguments.\<close>

datatype event =
    CallWriteFile jsstring "8 word list"
  | CallUpload "jsstring option" jsstring
  | CallGenerateContent "jsstring option" jsstring jsstring jsstring jsstring
  | CallUnlink jsstring

definition msg_no_images :: jsstring where
  "msg_no_images =
     [0xE15, 0xE49, 0xE2D, 0xE07, 0xE2D, 0xE31, 0xE1B, 0xE42, 0xE2B, 0xE25, 0xE14, 0xE23, 0xE39,
      0xE1B, 0xE2D, 0xE22, 0xE48, 0xE32, 0xE07, 0xE19, 0xE49, 0xE2D, 0xE22, 0x20, 0x31, 0x20,
      0xE23, 0xE39, 0xE1B]"

definition msg_bad_prompts :: jsstring where
  "msg_bad_prompts =
     [0xE23, 0xE39, 0xE1B, 0xE41, 0xE1A, 0xE1A, 0xE02, 0xE49, 0xE2D, 0xE21, 0xE39, 0xE25, 0x20,
      0x70, 0x72, 0x6F, 0x6D, 0x70, 0x74, 0x20, 0xE44, 0xE21, 0xE48, 0xE16, 0xE39, 0xE01, 0xE15,
      0xE49, 0xE2D, 0xE07]"

definition fallback_prompt :: jsstring where
  "fallback_prompt =
     [0xE1A, 0xE23, 0xE23, 0xE22, 0xE32, 0xE22, 0xE23, 0xE32, 0xE22, 0xE25, 0xE30, 0xE40, 0xE2D,
      0xE35, 0xE22, 0xE14, 0xE02, 0xE2D, 0xE07, 0xE20, 0xE32, 0xE1E, 0xE19, 0xE35, 0xE49]"

definition fallback_model :: jsstring where
  "fallback_model = js ''gemini-2.5-flash''"

definition msg_no_keys :: jsstring where
  "msg_no_keys =
     [0xE44, 0xE21, 0xE48, 0xE1E, 0xE1A, 0x20, 0x41, 0x50, 0x49, 0x20, 0x6B, 0x65, 0x79, 0x20,
      0xE01, 0xE23, 0xE38, 0xE13, 0xE32, 0xE01, 0xE33, 0xE2B, 0xE19, 0xE14, 0xE43, 0xE19, 0x20,
      0x2E, 0x65, 0x6E, 0x76, 0x20, 0xE2B, 0xE23, 0xE37, 0xE2D, 0xE1F, 0xE2D, 0xE23, 0xE4C,
      0xE21]"

definition msg_upload_failed :: jsstring where
  "msg_upload_failed =
     [0xE44, 0xE21, 0xE48, 0xE2A, 0xE32, 0xE21, 0xE32, 0xE23, 0xE16, 0xE2D, 0xE31, 0xE1B, 0xE42,
      0xE2B, 0xE25, 0xE14, 0xE44, 0xE1F, 0xE25, 0xE4C, 0xE44, 0xE1B, 0xE22, 0xE31, 0xE07, 0x20,
      0x47, 0x65, 0x6D, 0x69, 0x6E, 0x69, 0x20, 0xE44, 0xE14, 0xE49]"

definition msg_generic :: jsstring where
  "msg_generic =
     [0xE40, 0xE01, 0xE34, 0xE14, 0xE02, 0xE49, 0xE2D, 0xE1C, 0xE34, 0xE14, 0xE1E, 0xE25, 0xE32,
      0xE14]"

text \<open>
  \<^verbatim>\<open>upload.file ?? { uri: upload.uri, mimeType: upload.mimeType ?? file.type }\<close>
\<close>

record FileRef =
  ref_uri :: "jsstring option"
  ref_mimeType :: jsstring

definition fileRef :: "UploadResponse \<Rightarrow> File \<Rightarrow> FileRef" where
  "fileRef up file =
     (case upload_file up of
        Some f \<Rightarrow> \<lparr>ref_uri = Some (uri f), ref_mimeType = mimeType f\<rparr>
      | None \<Rightarrow> \<lparr>ref_uri = upload_uri up,
                 ref_mimeType = nullish (upload_mimeType up) (file_type file)\<rparr>)"

text \<open>
  The body of the \<^verbatim>\<open>try\<close> block: the text of the item, or what was thrown, with
  the calls made on the way.
\<close>

definition try_block ::
  "item_world \<Rightarrow> jsstring list \<Rightarrow> jsstring \<Rightarrow> jsstring \<Rightarrow> jsstring \<Rightarrow> File
     \<Rightarrow> (thrown + jsstring) \<times> event list" where
  "try_block w keys model prompt_i tempPath file =
     (case arrayBuffer w file of
        Inl t \<Rightarrow> (Inl t, [])
      | Inr buffer \<Rightarrow>
          (case writeFile w tempPath buffer of
             Some t \<Rightarrow> (Inl t, [CallWriteFile tempPath buffer])
           | None \<Rightarrow>
               (let key = pickKey keys (Math_random w) in
                case upload w key tempPath of
                  Inl t \<Rightarrow> (Inl t, [CallWriteFile tempPath buffer, CallUpload key tempPath])
                | Inr up \<Rightarrow>
                    (let r = fileRef up file in
                     if \<not> truthy (nullish (ref_uri r) []) \<or> \<not> truthy (ref_mimeType r)
                     then (Inl (ErrorObject msg_upload_failed),
                           [CallWriteFile tempPath buffer, CallUpload key tempPath])
                     else
                       (let u = nullish (ref_uri r) [];
                            calls = [CallWriteFile tempPath buffer, CallUpload key tempPath,
                                     CallGenerateContent key model prompt_i u (ref_mimeType r)]
                        in case generateContent w key model prompt_i u (ref_mimeType r) of
                             Inl t \<Rightarrow> (Inl t, calls)
                           | Inr response \<Rightarrow> (ensureText response, calls))))))"

text \<open>\<^verbatim>\<open>error instanceof Error ? error.message : <generic message>\<close>\<close>

definition error_message :: "thrown \<Rightarrow> jsstring" where
  "error_message thrown_value =
     (case thrown_value of ErrorObject message \<Rightarrow> message | NonError \<Rightarrow> msg_generic)"

definition tempPath_of :: "platform \<Rightarrow> item_world \<Rightarrow> File \<Rightarrow> jsstring" where
  "tempPath_of pf w file = path_join pf (tmpdir pf) (randomUUID w @ js ''-'' @ file_name file)"

text \<open>
  One iteration of the loop after the prompt is known: the \<^verbatim>\<open>try\<close> block, the entry
  pushed by its normal end or by \<^verbatim>\<open>catch\<close>, and the \<^verbatim>\<open>unlink\<close> of
  \<^verbatim>\<open>finally\<close>, whose rejection is dropped by \<^verbatim>\<open>.catch(() => {})\<close>.
\<close>

definition process_item ::
  "platform \<Rightarrow> item_world \<Rightarrow> jsstring list \<Rightarrow> jsstring \<Rightarrow> jsstring \<Rightarrow> File
     \<Rightarrow> ResultEntry \<times> event list" where
  "process_item pf w keys model prompt_i file =
     (let tempPath = tempPath_of pf w file;
          (outcome, calls) = try_block w keys model prompt_i tempPath file;
          entry = (case outcome of
                     Inr t \<Rightarrow> \<lparr>filename = file_name file, prompt = prompt_i,
                               entry_text = Some t, entry_error = None\<rparr>
                   | Inl thrown_value \<Rightarrow>
                       \<lparr>filename = file_name file, prompt = prompt_i, entry_text = None,
                        entry_error = Some (error_message thrown_value)\<rparr>);
          swallowed = unlink w tempPath
      in (entry, calls @ [CallUnlink tempPath]))"

text \<open>
  \<^verbatim>\<open>prompts[index]\<close> on whatever \<^verbatim>\<open>JSON.parse\<close> returned: reading a member of
  \<^verbatim>\<open>null\<close> throws; an array or a string has its elements, an object the property
  named by the decimal numeral of the index, and a boolean or a number has none.
\<close>

fun decimal :: "nat \<Rightarrow> jsstring" where
  "decimal n =
     (if n < 10 then [of_nat (48 + n)] else decimal (n div 10) @ [of_nat (48 + n mod 10)])"

declare decimal.simps [simp del]

fun member_at :: "json \<Rightarrow> nat \<Rightarrow> crash + json option" where
  "member_at JNull i = Inl TypeError"
| "member_at (JArray xs) i = Inr (if i < length xs then Some (xs ! i) else None)"
| "member_at (JString s) i = Inr (if i < length s then Some (JString [s ! i]) else None)"
| "member_at (JObject props) i = Inr (map_of props (decimal i))"
| "member_at (JBool b) i = Inr None"
| "member_at (JNumber x) i = Inr None"

text \<open>
  \<^verbatim>\<open>v?.trim()\<close> on such a member: \<^verbatim>\<open>undefined\<close> and \<^verbatim>\<open>null\<close> short-circuit,
  a string is trimmed, and anything else has no callable \<^verbatim>\<open>trim\<close>.
\<close>

fun optional_trim :: "json option \<Rightarrow> crash + jsstring option" where
  "optional_trim None = Inr None"
| "optional_trim (Some JNull) = Inr None"
| "optional_trim (Some (JString s)) = Inr (Some (trim s))"
| "optional_trim (Some v) = Inl TypeError"

text \<open>\<^verbatim>\<open>prompts[index]?.trim() || defaultPrompt\<close>\<close>

definition item_prompt :: "json \<Rightarrow> nat \<Rightarrow> jsstring \<Rightarrow> crash + jsstring" where
  "item_prompt prompts index defaultPrompt =
     (case member_at prompts index of
        Inl e \<Rightarrow> Inl e
      | Inr m \<Rightarrow>
          (case optional_trim m of
             Inl e \<Rightarrow> Inl e
           | Inr t \<Rightarrow> Inr (or_else t defaultPrompt)))"

text \<open>
  The \<^verbatim>\<open>for\<close> loop over \<^verbatim>\<open>files\<close>, from \<open>index\<close> on: the files left, the
  results pushed and the calls made so far. The prompt is computed outside the
  \<^verbatim>\<open>try\<close> block, so a TypeError there ends the handler.
\<close>

fun loop ::
  "platform \<Rightarrow> (nat \<Rightarrow> item_world) \<Rightarrow> jsstring list \<Rightarrow> jsstring \<Rightarrow> jsstring \<Rightarrow> json
     \<Rightarrow> nat \<Rightarrow> File list \<Rightarrow> ResultEntry list \<Rightarrow> event list
     \<Rightarrow> (crash + ResultEntry list) \<times> event list" where
  "loop pf world keys model defaultPrompt prompts index [] results calls = (Inr results, calls)"
| "loop pf world keys model defaultPrompt prompts index (file # rest) results calls =
     (case item_prompt prompts index defaultPrompt of
        Inl e \<Rightarrow> (Inl e, calls)
      | Inr prompt_i \<Rightarrow>
          (let (entry, made) = process_item pf (world index) keys model prompt_i file
           in loop pf world keys model defaultPrompt prompts (Suc index) rest
                (results @ [entry]) (calls @ made)))"

text \<open>
  \<^verbatim>\<open>(formData.get(name) as string)?.trim()\<close>: the cast checks nothing, and a file
  entry has no \<^verbatim>\<open>trim\<close>.
\<close>

fun entry_trim :: "FormDataEntryValue option \<Rightarrow> crash + jsstring option" where
  "entry_trim None = Inr None"
| "entry_trim (Some (EntryString s)) = Inr (Some (trim s))"
| "entry_trim (Some (EntryFile f)) = Inl TypeError"

definition image_files :: "FormData \<Rightarrow> File list" where
  "image_files formData =
     concat (map (\<lambda>v. case v of EntryFile f \<Rightarrow> [f] | EntryString s \<Rightarrow> [])
               (getAll formData (js ''images'')))"

text \<open>
  The argument of \<^verbatim>\<open>JSON.parse\<close>: the field, \<^verbatim>\<open>"[]"\<close> when it is absent, and
  the string a file entry converts to.
\<close>

definition prompts_source :: "FormData \<Rightarrow> jsstring" where
  "prompts_source formData =
     (case get_entry formData (js ''prompts'') of
        None \<Rightarrow> js ''[]''
      | Some (EntryString s) \<Rightarrow> s
      | Some (EntryFile f) \<Rightarrow> js ''[object File]'')"

text \<open>
  \<^verbatim>\<open>(formData.get("defaultPrompt") as string)?.trim() || <literal>\<close>, and the same
  for \<^verbatim>\<open>model\<close>.
\<close>

definition defaultPrompt_of :: "FormData \<Rightarrow> crash + jsstring" where
  "defaultPrompt_of formData =
     (case entry_trim (get_entry formData (js ''defaultPrompt'')) of
        Inl e \<Rightarrow> Inl e
      | Inr t \<Rightarrow> Inr (or_else t fallback_prompt))"

definition model_of :: "FormData \<Rightarrow> crash + jsstring" where
  "model_of formData =
     (case entry_trim (get_entry formData (js ''model'')) of
        Inl e \<Rightarrow> Inl e
      | Inr t \<Rightarrow> Inr (or_else t fallback_model))"

definition POST ::
  "platform \<Rightarrow> (nat \<Rightarrow> item_world) \<Rightarrow> FormData \<Rightarrow> (crash + NextResponse) \<times> event list" where
  "POST pf world formData =
     (let files = image_files formData in
      if files = [] then (Inr \<lparr>status = 400, body = ErrorBody msg_no_images\<rparr>, [])
      else
        (case JSON_parse pf (prompts_source formData) of
           None \<Rightarrow> (Inr \<lparr>status = 400, body = ErrorBody msg_bad_prompts\<rparr>, [])
         | Some prompts \<Rightarrow>
             (case defaultPrompt_of formData of
                Inl e \<Rightarrow> (Inl e, [])
              | Inr defaultPrompt \<Rightarrow>
                  (case model_of formData of
                     Inl e \<Rightarrow> (Inl e, [])
                   | Inr model \<Rightarrow>
                       (let keys = allKeys pf formData
                        in if keys = []
                           then (Inr \<lparr>status = 400, body = ErrorBody msg_no_keys\<rparr>, [])
                           else
                             (case loop pf world keys model defaultPrompt prompts 0 files [] [] of
                                (Inl e, calls) \<Rightarrow> (Inl e, calls)
                              | (Inr results, calls) \<Rightarrow>
                                  (Inr \<lparr>status = 200, body = ResultsBody results\<rparr>, calls)))))))"

section \<open>An example request\<close>

text \<open>
  A concrete platform, request and outside world, on which the theorems below are
  instantiated. The JSON texts are \<^verbatim>\<open>["k1"]\<close> and \<^verbatim>\<open>[" hi "]\<close>; the decoder is
  given on the texts the examples use. The first image is uploaded (the service answers
  with a bare URI) and described, the upload of every later image throws. A second
  upload response has the wrapped shape with an empty media type, and a second world
  answers every upload with it. A second request has the prompts \<^verbatim>\<open>[1]\<close>.
\<close>

definition example_keys_text :: jsstring where
  "example_keys_text = [0x5B, 0x22, 0x6B, 0x31, 0x22, 0x5D]"

definition example_prompts_text :: jsstring where
  "example_prompts_text = [0x5B, 0x22, 0x20, 0x68, 0x69, 0x20, 0x22, 0x5D]"

definition example_parse :: "jsstring \<Rightarrow> json option" where
  "example_parse s =
     (if s = js ''[]'' then Some (JArray [])
      else if s = example_keys_text then Some (JArray [JString (js ''k1'')])
      else if s = example_prompts_text then Some (JArray [JString (js '' hi '')])
      else if s = js ''[1]'' then Some (JArray [JNumber 1])
      else None)"

definition example_platform :: platform where
  "example_platform =
     \<lparr>JSON_parse = example_parse, GOOGLE_API_KEYS = Some (js ''k1''), GOOGLE_API_KEY = None,
      tmpdir = js ''/tmp'', path_join = (\<lambda>dir base. dir @ js ''/'' @ base)\<rparr>"

definition example_response :: GeminiResponse where
  "example_response =
     \<lparr>response_text = Some (TextString (js ''A trumpet'')), response_response = None,
      response_candidates = None\<rparr>"

definition example_item :: "(thrown + UploadResponse) \<Rightarrow> item_world" where
  "example_item uploaded =
     \<lparr>randomUUID = js ''u0'',
      arrayBuffer = (\<lambda>f. Inr (file_bytes f)),
      writeFile = (\<lambda>p buffer. None),
      Math_random = 0,
      upload = (\<lambda>key p. uploaded),
      generateContent = (\<lambda>key model prompt_i u m. Inr (Some example_response)),
      unlink = (\<lambda>p. Some NonError)\<rparr>"

definition example_flat :: UploadResponse where
  "example_flat =
     \<lparr>upload_file = None, upload_uri = Some (js ''files/1''), upload_mimeType = None\<rparr>"

definition example_wrapped :: UploadResponse where
  "example_wrapped =
     \<lparr>upload_file = Some \<lparr>uri = js ''files/1'', mimeType = []\<rparr>, upload_uri = None,
      upload_mimeType = None\<rparr>"

definition example_world :: "nat \<Rightarrow> item_world" where
  "example_world i =
     (if i = 0 then example_item (Inr example_flat)
      else example_item (Inl (ErrorObject (js ''boom''))))"

definition example_world_wrapped :: "nat \<Rightarrow> item_world" where
  "example_world_wrapped i = example_item (Inr example_wrapped)"

definition example_file :: "string \<Rightarrow> File" where
  "example_file n = \<lparr>file_name = js n, file_type = js ''image/png'', file_bytes = [1, 2]\<rparr>"

definition example_form :: FormData where
  "example_form =
     [(js ''images'', EntryFile (example_file ''a.png'')),
      (js ''images'', EntryFile (example_file ''b.png'')),
      (js ''prompts'', EntryString example_prompts_text),
      (js ''apiKeys'', EntryString example_keys_text)]"

definition example_form_numbers :: FormData where
  "example_form_numbers =
     [(js ''images'', EntryFile (example_file ''a.png'')),
      (js ''prompts'', EntryString (js ''[1]''))]"

lemmas example_defs =
  example_keys_text_def example_prompts_text_def example_parse_def example_platform_def
  example_response_def example_item_def example_flat_def example_world_def
  example_file_def example_form_def

lemmas handler_defs =
  getAll_def get_entry_def image_files_def prompts_source_def defaultPrompt_of_def model_of_def
  allKeys_def getEnvKeys_def parseClientKeys_def js_def nullish_def or_else_def truthy_def
  trim_def isSeparator_def isWhiteSpace_def

section \<open>Strings: trimming and splitting\<close>





section \<open>The credential pool\<close>








section \<open>The loop and the handler\<close>

lemmas eval_defs = handler_defs example_defs

lemmas item_defs = item_prompt_def process_item_def try_block_def tempPath_of_def pickKey_def
  fileRef_def ensureText_def error_message_def Let_def

lemma loop_runs:
  assumes "\<forall>i<length files. item_prompt prompts (index + i) d = Inr (p (index + i))"
  shows "loop pf world keys model d prompts index files results calls =
           (Inr (results @ map (\<lambda>i. fst (process_item pf (world (index + i)) keys model
                                          (p (index + i)) (files ! i))) [0..<length files]),
            calls @ concat (map (\<lambda>i. snd (process_item pf (world (index + i)) keys model
                                          (p (index + i)) (files ! i))) [0..<length files]))"
  using assms
proof (induction files arbitrary: index results calls)
  case Nil
  then show ?case by simp
next
  case (Cons f rest)
  from Cons.prems have here: "item_prompt prompts index d = Inr (p index)"
    by (metis add.right_neutral length_greater_0_conv list.distinct(1))
  from Cons.prems have later:
    "\<forall>i<length rest. item_prompt prompts (Suc index + i) d = Inr (p (Suc index + i))"
    by fastforce
  show ?case
    by (simp add: here Cons.IH [OF later] split_beta map_upt_Suc del: upt_Suc)
qed

lemma item_prompt_strings:
  "item_prompt (JArray (map JString ss)) i d =
     Inr (or_else (if i < length ss then Some (trim (ss ! i)) else None) d)"
  by (simp add: item_prompt_def)

lemma POST_runs:
  assumes "image_files formData \<noteq> []"
    and "JSON_parse pf (prompts_source formData) = Some prompts"
    and "defaultPrompt_of formData = Inr d"
    and "model_of formData = Inr m"
    and "allKeys pf formData \<noteq> []"
    and "\<forall>i<length (image_files formData). item_prompt prompts i d = Inr (p i)"
  shows "POST pf world formData =
           (Inr \<lparr>status = 200,
                 body = ResultsBody
                   (map (\<lambda>i. fst (process_item pf (world i) (allKeys pf formData) m (p i)
                                    (image_files formData ! i)))
                      [0..<length (image_files formData)])\<rparr>,
            concat (map (\<lambda>i. snd (process_item pf (world i) (allKeys pf formData) m (p i)
                                    (image_files formData ! i)))
                      [0..<length (image_files formData)]))"
proof -
  from assms(6) have "\<forall>i<length (image_files formData). item_prompt prompts (0 + i) d = Inr (p (0 + i))"
    by simp
  from loop_runs [OF this, of pf world "allKeys pf formData" m "[]" "[]"] assms(1-5)
  show ?thesis by (simp add: POST_def Let_def)
qed

lemma process_item_entry:
  "filename (fst (process_item pf w keys model p f)) = file_name f \<and>
   prompt (fst (process_item pf w keys model p f)) = p"
  by (simp add: process_item_def Let_def split_beta split: sum.split)

lemma example_valid:
  "image_files example_form \<noteq> []"
  "JSON_parse example_platform (prompts_source example_form) = Some (JArray (map JString [js '' hi '']))"
  "defaultPrompt_of example_form = Inr fallback_prompt"
  "model_of example_form = Inr fallback_model"
  "allKeys example_platform example_form \<noteq> []"
  by (simp_all add: eval_defs)

lemma example_files:
  "image_files example_form = [example_file ''a.png'', example_file ''b.png'']"
  by (simp add: eval_defs)

lemma example_keys: "allKeys example_platform example_form = [js ''k1'', js ''k1'']"
  by (simp add: eval_defs)

lemma example_run:
  "POST example_platform example_world example_form =
     (Inr \<lparr>status = 200,
           body = ResultsBody
             [\<lparr>filename = js ''a.png'', prompt = js ''hi'',
               entry_text = Some (js ''A trumpet''), entry_error = None\<rparr>,
              \<lparr>filename = js ''b.png'', prompt = fallback_prompt,
               entry_text = None, entry_error = Some (js ''boom'')\<rparr>]\<rparr>,
      [CallWriteFile (js ''/tmp/u0-a.png'') [1, 2],
       CallUpload (Some (js ''k1'')) (js ''/tmp/u0-a.png''),
       CallGenerateContent (Some (js ''k1'')) fallback_model (js ''hi'') (js ''files/1'')
         (js ''image/png''),
       CallUnlink (js ''/tmp/u0-a.png''),
       CallWriteFile (js ''/tmp/u0-b.png'') [1, 2],
       CallUpload (Some (js ''k1'')) (js ''/tmp/u0-b.png''),
       CallUnlink (js ''/tmp/u0-b.png'')])"
  by (simp add: POST_def eval_defs item_defs fallback_model_def)

section \<open>Malformed prompt lists\<close>

lemma item_prompt_number: "item_prompt (JArray (JNumber x # more_prompts)) 0 d = Inl TypeError"
  by (simp add: item_prompt_def)

text \<open>
  C2. A request whose \<^verbatim>\<open>prompts\<close> field is present but is not a decodable array of
  strings is to be refused with HTTP 400. The handler refuses only a text that
  \<^verbatim>\<open>JSON.parse\<close> rejects. A field that decodes to an array starting with a number passes
  the decoder, and \<^verbatim>\<open>prompts[0]?.trim()\<close>, evaluated outside the \<^verbatim>\<open>try\<close> block,
  throws: the handler ends with a TypeError, without a response and before any call for
  the first image.
\<close>

theorem number_prompt_throws_outside_try:
  assumes "image_files formData \<noteq> []"
    and "JSON_parse pf (prompts_source formData) = Some (JArray (JNumber x # more_prompts))"
    and "defaultPrompt_of formData = Inr d"
    and "model_of formData = Inr m"
    and "allKeys pf formData \<noteq> []"
  shows "POST pf world formData = (Inl TypeError, [])"
proof -
  from assms(1) obtain f rest where files: "image_files formData = f # rest"
    by (cases "image_files formData") auto
  have "loop pf world (allKeys pf formData) m d (JArray (JNumber x # more_prompts)) 0 (f # rest) [] []
          = (Inl TypeError, [])"
    by (simp add: item_prompt_number)
  with assms files show ?thesis by (simp add: POST_def Let_def)
qed

theorem number_prompt_throws_outside_try_witness:
  "image_files example_form_numbers \<noteq> []
   \<and> JSON_parse example_platform (prompts_source example_form_numbers)
       = Some (JArray [JNumber 1])
   \<and> defaultPrompt_of example_form_numbers = Inr fallback_prompt
   \<and> model_of example_form_numbers = Inr fallback_model
   \<and> allKeys example_platform example_form_numbers \<noteq> []
   \<and> POST example_platform example_world example_form_numbers = (Inl TypeError, [])"
proof -
  have h: "image_files example_form_numbers \<noteq> []"
    "JSON_parse example_platform (prompts_source example_form_numbers) = Some (JArray [JNumber 1])"
    "defaultPrompt_of example_form_numbers = Inr fallback_prompt"
    "model_of example_form_numbers = Inr fallback_model"
    "allKeys example_platform example_form_numbers \<noteq> []"
    by (simp_all add: eval_defs example_form_numbers_def)
  from number_prompt_throws_outside_try [OF h, of example_world] h show ?thesis by simp
qed

section \<open>One entry per image\<close>




section \<open>Text and error exclude each other\<close>

lemma process_item_xor:
  "(entry_text (fst (process_item pf w keys model p f)) \<noteq> None \<and>
    entry_error (fst (process_item pf w keys model p f)) = None) \<or>
   (entry_text (fst (process_item pf w keys model p f)) = None \<and>
    entry_error (fst (process_item pf w keys model p f)) \<noteq> None)"
  by (simp add: process_item_def Let_def split_beta split: sum.split)

lemma loop_entries:
  assumes "loop pf world keys model d prompts index files results calls = (Inr rs, cs)"
    and "\<forall>e\<in>set results. P e"
    and "\<And>w p f. P (fst (process_item pf w keys model p f))"
  shows "\<forall>e\<in>set rs. P e"
  using assms(1,2)
proof (induction files arbitrary: index results calls)
  case Nil
  then show ?case by simp
next
  case (Cons f rest)
  from Cons.prems(1) obtain p where p: "item_prompt prompts index d = Inr p"
    by (cases "item_prompt prompts index d") auto
  obtain entry made where pi: "process_item pf (world index) keys model p f = (entry, made)"
    by (cases "process_item pf (world index) keys model p f")
  from assms(3) [of "world index" p f] pi have "P entry" by simp
  with Cons.prems(2) have all: "\<forall>e\<in>set (results @ [entry]). P e" by simp
  from Cons.prems(1) p pi
  have "loop pf world keys model d prompts (Suc index) rest (results @ [entry]) (calls @ made) = (Inr rs, cs)"
    by simp
  from Cons.IH [OF this all] show ?case .
qed

text \<open>
  C4. Every entry of every result list the handler returns has exactly one of
  \<^verbatim>\<open>text\<close> and \<^verbatim>\<open>error\<close> set.
\<close>

theorem result_entry_text_xor_error:
  assumes "POST pf world formData = (Inr r, calls)"
    and "body r = ResultsBody results"
    and "e \<in> set results"
  shows "(entry_text e \<noteq> None \<and> entry_error e = None) \<or>
         (entry_text e = None \<and> entry_error e \<noteq> None)"
proof -
  let ?P = "\<lambda>e. (entry_text e \<noteq> None \<and> entry_error e = None) \<or>
                 (entry_text e = None \<and> entry_error e \<noteq> None)"
  from assms(1,2) obtain prompts d m cs where
    "loop pf world (allKeys pf formData) m d prompts 0 (image_files formData) [] [] = (Inr results, cs)"
    by (auto simp: POST_def Let_def split: if_splits option.splits sum.splits prod.splits)
  from loop_entries [where P = ?P, OF this] process_item_xor have "\<forall>e\<in>set results. ?P e"
    by simp
  with assms(3) show ?thesis by blast
qed

theorem result_entry_text_xor_error_witness:
  "POST example_platform example_world example_form =
     (Inr \<lparr>status = 200,
           body = ResultsBody
             [\<lparr>filename = js ''a.png'', prompt = js ''hi'',
               entry_text = Some (js ''A trumpet''), entry_error = None\<rparr>,
              \<lparr>filename = js ''b.png'', prompt = fallback_prompt,
               entry_text = None, entry_error = Some (js ''boom'')\<rparr>]\<rparr>,
      snd (POST example_platform example_world example_form))
   \<and> entry_text \<lparr>filename = js ''b.png'', prompt = fallback_prompt,
               entry_text = None, entry_error = Some (js ''boom'')\<rparr> = None
   \<and> entry_error \<lparr>filename = js ''b.png'', prompt = fallback_prompt,
               entry_text = None, entry_error = Some (js ''boom'')\<rparr> \<noteq> None"
proof -
  let ?a = "\<lparr>filename = js ''a.png'', prompt = js ''hi'',
               entry_text = Some (js ''A trumpet''), entry_error = None\<rparr>"
  let ?b = "\<lparr>filename = js ''b.png'', prompt = fallback_prompt,
               entry_text = None, entry_error = Some (js ''boom'')\<rparr>"
  have run: "POST example_platform example_world example_form =
      (Inr \<lparr>status = 200, body = ResultsBody [?a, ?b]\<rparr>,
       snd (POST example_platform example_world example_form))"
    by (simp add: example_run)
  have "body \<lparr>status = 200, body = ResultsBody [?a, ?b]\<rparr> = ResultsBody [?a, ?b]" by simp
  from result_entry_text_xor_error [OF run this, of ?b] run show ?thesis by simp
qed

section \<open>Isolation of item failures\<close>

lemma process_item_upload_throws:
  assumes "CallUpload k pa \<in> set (snd (process_item pf w keys model p f))"
    and "upload w k pa = Inl t"
  shows "fst (process_item pf w keys model p f) =
           \<lparr>filename = file_name f, prompt = p, entry_text = None,
            entry_error = Some (error_message t)\<rparr>"
  using assms
  by (auto simp: process_item_def try_block_def Let_def split_beta
      split: sum.splits option.splits if_splits)

lemma process_item_generate_throws:
  assumes "CallGenerateContent k mo pr u mt \<in> set (snd (process_item pf w keys model p f))"
    and "generateContent w k mo pr u mt = Inl t"
  shows "fst (process_item pf w keys model p f) =
           \<lparr>filename = file_name f, prompt = p, entry_text = None,
            entry_error = Some (error_message t)\<rparr>"
  using assms
  by (auto simp: process_item_def try_block_def Let_def split_beta
      split: sum.splits option.splits if_splits)

text \<open>
  C5. For every valid batch the handler answers 200 with one entry per image, however
  many items fail. If the upload call or the generation call made for image \<open>i\<close> throws,
  the entry of image \<open>i\<close> has no text and carries the message of what was thrown. And
  whatever the outside world does for image \<open>i\<close> instead, the entries of all other images
  stay the same.
\<close>

theorem item_failures_isolated:
  assumes "image_files formData \<noteq> []"
    and "JSON_parse pf (prompts_source formData) = Some (JArray (map JString ss))"
    and "defaultPrompt_of formData = Inr d"
    and "model_of formData = Inr m"
    and "allKeys pf formData \<noteq> []"
  shows "\<exists>results calls.
           POST pf world formData = (Inr \<lparr>status = 200, body = ResultsBody results\<rparr>, calls)
           \<and> length results = length (image_files formData)
           \<and> (\<forall>i<length (image_files formData). \<forall>k pa mo pr u mt t.
                 (CallUpload k pa
                    \<in> set (snd (process_item pf (world i) (allKeys pf formData) m
                                  (prompt (results ! i)) (image_files formData ! i)))
                  \<and> upload (world i) k pa = Inl t)
                 \<or> (CallGenerateContent k mo pr u mt
                    \<in> set (snd (process_item pf (world i) (allKeys pf formData) m
                                  (prompt (results ! i)) (image_files formData ! i)))
                  \<and> generateContent (world i) k mo pr u mt = Inl t)
                 \<longrightarrow> entry_text (results ! i) = None
                     \<and> entry_error (results ! i) = Some (error_message t))
           \<and> (\<forall>i w'. \<exists>results' calls'.
                 POST pf (world(i := w')) formData =
                   (Inr \<lparr>status = 200, body = ResultsBody results'\<rparr>, calls')
                 \<and> length results' = length (image_files formData)
                 \<and> (\<forall>j<length (image_files formData). j \<noteq> i \<longrightarrow> results' ! j = results ! j))"
proof -
  define n where "n = length (image_files formData)"
  define p where "p = (\<lambda>i. or_else (if i < length ss then Some (trim (ss ! i)) else None) d)"
  define run where
    "run = (\<lambda>w i. process_item pf (w i) (allKeys pf formData) m (p i) (image_files formData ! i))"
  define results where "results = map (\<lambda>i. fst (run world i)) [0..<n]"
  have prompts: "\<forall>i<length (image_files formData). item_prompt (JArray (map JString ss)) i d = Inr (p i)"
    by (simp add: item_prompt_strings p_def)
  have post: "POST pf w formData =
      (Inr \<lparr>status = 200, body = ResultsBody (map (\<lambda>i. fst (run w i)) [0..<n])\<rparr>,
       concat (map (\<lambda>i. snd (run w i)) [0..<n]))" for w
    using POST_runs [OF assms prompts, of w] by (simp add: run_def n_def)
  have at: "results ! i = fst (run world i)" if "i < n" for i
    using that by (simp add: results_def)
  have pr: "prompt (results ! i) = p i" if "i < n" for i
    using that by (simp add: at run_def process_item_entry)
  have fails: "entry_text (results ! i) = None \<and> entry_error (results ! i) = Some (error_message t)"
    if "i < n"
      and "(CallUpload k pa \<in> set (snd (process_item pf (world i) (allKeys pf formData) m
                                  (prompt (results ! i)) (image_files formData ! i)))
            \<and> upload (world i) k pa = Inl t)
           \<or> (CallGenerateContent k mo pr u mt
                 \<in> set (snd (process_item pf (world i) (allKeys pf formData) m
                                  (prompt (results ! i)) (image_files formData ! i)))
               \<and> generateContent (world i) k mo pr u mt = Inl t)"
    for i k pa mo pr u mt t
  proof -
    note hyp = that(2) [unfolded pr [OF that(1)]]
    have "fst (run world i) = \<lparr>filename = file_name (image_files formData ! i), prompt = p i,
          entry_text = None, entry_error = Some (error_message t)\<rparr>"
    proof (rule disjE [OF hyp])
      assume "CallUpload k pa \<in> set (snd (process_item pf (world i) (allKeys pf formData) m
                                  (p i) (image_files formData ! i))) \<and> upload (world i) k pa = Inl t"
      then show ?thesis unfolding run_def by (intro process_item_upload_throws [of k pa]) simp_all
    next
      assume "CallGenerateContent k mo pr u mt \<in> set (snd (process_item pf (world i) (allKeys pf formData) m
                                  (p i) (image_files formData ! i)))
              \<and> generateContent (world i) k mo pr u mt = Inl t"
      then show ?thesis unfolding run_def
        by (intro process_item_generate_throws [of k mo pr u mt]) simp_all
    qed
    with that(1) show ?thesis by (simp add: at)
  qed
  have others: "\<exists>results' calls'.
        POST pf (world(i := w')) formData =
          (Inr \<lparr>status = 200, body = ResultsBody results'\<rparr>, calls')
        \<and> length results' = n \<and> (\<forall>j<n. j \<noteq> i \<longrightarrow> results' ! j = results ! j)" for i w'
    using post [of "world(i := w')"] by (simp add: results_def run_def)
  have "POST pf world formData =
          (Inr \<lparr>status = 200, body = ResultsBody results\<rparr>, concat (map (\<lambda>i. snd (run world i)) [0..<n]))"
    using post [of world] by (simp add: results_def)
  moreover have "length results = n" by (simp add: results_def)
  ultimately show ?thesis using fails others unfolding n_def by blast
qed

theorem item_failures_isolated_witness:
  "image_files example_form \<noteq> []
   \<and> JSON_parse example_platform (prompts_source example_form)
       = Some (JArray (map JString [js '' hi '']))
   \<and> defaultPrompt_of example_form = Inr fallback_prompt
   \<and> model_of example_form = Inr fallback_model
   \<and> allKeys example_platform example_form \<noteq> []
   \<and> upload (example_world 1) (Some (js ''k1'')) (js ''/tmp/u0-b.png'') = Inl (ErrorObject (js ''boom''))
   \<and> (\<exists>results calls.
         POST example_platform example_world example_form =
           (Inr \<lparr>status = 200, body = ResultsBody results\<rparr>, calls)
         \<and> length results = 2
         \<and> entry_text (results ! 1) = None
         \<and> entry_error (results ! 1) = Some (js ''boom''))"
proof -
  have up: "upload (example_world 1) (Some (js ''k1'')) (js ''/tmp/u0-b.png'') = Inl (ErrorObject (js ''boom''))"
    by (simp add: example_defs)
  have call: "CallUpload (Some (js ''k1'')) (js ''/tmp/u0-b.png'')
      \<in> set (snd (process_item example_platform (example_world 1)
                    (allKeys example_platform example_form) fallback_model p
                    (image_files example_form ! 1)))" for p
    by (simp add: example_files example_keys)
       (simp add: example_defs process_item_def try_block_def tempPath_of_def pickKey_def js_def Let_def)
  from item_failures_isolated [OF example_valid, of example_world]
  obtain results calls where r:
    "POST example_platform example_world example_form =
       (Inr \<lparr>status = 200, body = ResultsBody results\<rparr>, calls)"
    "length results = length (image_files example_form)"
    "\<forall>i<length (image_files example_form). \<forall>k pa mo pr u mt t.
                 (CallUpload k pa
                    \<in> set (snd (process_item example_platform (example_world i) (allKeys example_platform example_form) fallback_model
                                  (prompt (results ! i)) (image_files example_form ! i)))
                  \<and> upload (example_world i) k pa = Inl t)
                 \<or> (CallGenerateContent k mo pr u mt
                    \<in> set (snd (process_item example_platform (example_world i) (allKeys example_platform example_form) fallback_model
                                  (prompt (results ! i)) (image_files example_form ! i)))
                  \<and> generateContent (example_world i) k mo pr u mt = Inl t)
                 \<longrightarrow> entry_text (results ! i) = None
                     \<and> entry_error (results ! i) = Some (error_message t)"
    by blast
  have "1 < length (image_files example_form)" by (simp add: example_files)
  with r(3) call [of "prompt (results ! 1)"] up
  have "entry_text (results ! 1) = None
        \<and> entry_error (results ! 1) = Some (error_message (ErrorObject (js ''boom'')))"
    by blast
  with r(1,2) up example_valid show ?thesis by (auto simp: example_files error_message_def)
qed

section \<open>The effective prompt\<close>

lemma process_item_generate_prompt:
  assumes "CallGenerateContent k mo pr u mt \<in> set (snd (process_item pf w keys model p f))"
  shows "pr = p \<and> mo = model"
  using assms
  by (auto simp: process_item_def try_block_def Let_def split_beta
      split: sum.splits option.splits if_splits)

lemma defaultPrompt_of_cases:
  assumes "defaultPrompt_of formData = Inr d"
  shows "d = (case get_entry formData (js ''defaultPrompt'') of
                Some (EntryString s) \<Rightarrow> if trim s \<noteq> [] then trim s else fallback_prompt
              | _ \<Rightarrow> fallback_prompt)"
  using assms
  by (cases "get_entry formData (js ''defaultPrompt'')" rule: entry_trim.cases)
     (auto simp: defaultPrompt_of_def or_else_def truthy_def)

text \<open>
  C6, as the code has it. For every item index \<open>i\<close> of a valid batch, the prompt recorded
  in the entry, which is also the prompt of every generation call made for the item, is the
  item's own prompt with leading and trailing white space removed when that is not empty,
  and the batch default otherwise; the batch default is the trimmed
  \<^verbatim>\<open>defaultPrompt\<close> field, or the fixed literal when the field is absent or blank.
\<close>

theorem effective_prompt_is_trimmed:
  assumes "image_files formData \<noteq> []"
    and "JSON_parse pf (prompts_source formData) = Some (JArray (map JString ss))"
    and "defaultPrompt_of formData = Inr d"
    and "model_of formData = Inr m"
    and "allKeys pf formData \<noteq> []"
  shows "\<exists>results calls.
           POST pf world formData = (Inr \<lparr>status = 200, body = ResultsBody results\<rparr>, calls)
           \<and> length results = length (image_files formData)
           \<and> (\<forall>i<length (image_files formData).
                 prompt (results ! i) =
                   (if i < length ss \<and> trim (ss ! i) \<noteq> [] then trim (ss ! i) else d)
                 \<and> (\<forall>k mo pr u mt.
                       CallGenerateContent k mo pr u mt
                         \<in> set (snd (process_item pf (world i) (allKeys pf formData) m
                                       (prompt (results ! i)) (image_files formData ! i)))
                       \<longrightarrow> pr = prompt (results ! i)))
           \<and> calls = concat (map (\<lambda>i. snd (process_item pf (world i) (allKeys pf formData) m
                                            (prompt (results ! i)) (image_files formData ! i)))
                              [0..<length (image_files formData)])
           \<and> d = (case get_entry formData (js ''defaultPrompt'') of
                    Some (EntryString s) \<Rightarrow> if trim s \<noteq> [] then trim s else fallback_prompt
                  | _ \<Rightarrow> fallback_prompt)"
proof -
  define n where "n = length (image_files formData)"
  define p where "p = (\<lambda>i. or_else (if i < length ss then Some (trim (ss ! i)) else None) d)"
  define run where
    "run = (\<lambda>i. process_item pf (world i) (allKeys pf formData) m (p i) (image_files formData ! i))"
  define results where "results = map (\<lambda>i. fst (run i)) [0..<n]"
  have prompts: "\<forall>i<length (image_files formData). item_prompt (JArray (map JString ss)) i d = Inr (p i)"
    by (simp add: item_prompt_strings p_def)
  have post: "POST pf world formData =
      (Inr \<lparr>status = 200, body = ResultsBody results\<rparr>, concat (map (\<lambda>i. snd (run i)) [0..<n]))"
    using POST_runs [OF assms prompts, of world] by (simp add: run_def n_def results_def)
  have pr: "prompt (results ! i) = p i" if "i < n" for i
    using that by (simp add: results_def run_def process_item_entry)
  have eff: "p i = (if i < length ss \<and> trim (ss ! i) \<noteq> [] then trim (ss ! i) else d)" for i
    by (simp add: p_def or_else_def truthy_def)
  have calls: "concat (map (\<lambda>i. snd (run i)) [0..<n]) =
      concat (map (\<lambda>i. snd (process_item pf (world i) (allKeys pf formData) m
                                            (prompt (results ! i)) (image_files formData ! i))) [0..<n])"
    by (rule arg_cong [where f = concat], rule map_cong) (simp_all add: pr run_def)
  have gen: "pr' = prompt (results ! i)"
    if "CallGenerateContent k mo pr' u mt
          \<in> set (snd (process_item pf (world i) (allKeys pf formData) m
                        (prompt (results ! i)) (image_files formData ! i)))"
    for i k mo pr' u mt
    using process_item_generate_prompt [OF that] by simp
  have len: "length results = n" by (simp add: results_def)
  have A: "\<forall>i<n. prompt (results ! i) =
                   (if i < length ss \<and> trim (ss ! i) \<noteq> [] then trim (ss ! i) else d)
                 \<and> (\<forall>k mo pr u mt.
                       CallGenerateContent k mo pr u mt
                         \<in> set (snd (process_item pf (world i) (allKeys pf formData) m
                                       (prompt (results ! i)) (image_files formData ! i)))
                       \<longrightarrow> pr = prompt (results ! i))"
    using pr eff gen by metis
  note D = defaultPrompt_of_cases [OF assms(3)]
  show ?thesis
    apply (rule exI [of _ results])
    apply (rule exI [of _ "concat (map (\<lambda>i. snd (run i)) [0..<length (image_files formData)])"])
    apply (insert post len A calls D)
    apply (unfold n_def)
    apply (intro conjI; assumption)
    done
qed

theorem effective_prompt_is_trimmed_witness:
  "image_files example_form \<noteq> []
   \<and> JSON_parse example_platform (prompts_source example_form)
       = Some (JArray (map JString [js '' hi '']))
   \<and> defaultPrompt_of example_form = Inr fallback_prompt
   \<and> model_of example_form = Inr fallback_model
   \<and> allKeys example_platform example_form \<noteq> []
   \<and> (\<exists>results calls.
         POST example_platform example_world example_form =
           (Inr \<lparr>status = 200, body = ResultsBody results\<rparr>, calls)
         \<and> length results = 2
         \<and> prompt (results ! 0) = js ''hi''
         \<and> prompt (results ! 1) = fallback_prompt)"
proof -
  from effective_prompt_is_trimmed [OF example_valid, of example_world]
  obtain results calls where r:
    "POST example_platform example_world example_form =
       (Inr \<lparr>status = 200, body = ResultsBody results\<rparr>, calls)"
    "length results = length (image_files example_form)"
    "\<forall>i<length (image_files example_form).
        prompt (results ! i) =
          (if i < length [js '' hi ''] \<and> trim ([js '' hi ''] ! i) \<noteq> []
           then trim ([js '' hi ''] ! i) else fallback_prompt)
        \<and> (\<forall>k mo pr u mt.
              CallGenerateContent k mo pr u mt
                \<in> set (snd (process_item example_platform (example_world i)
                              (allKeys example_platform example_form) fallback_model
                              (prompt (results ! i)) (image_files example_form ! i)))
              \<longrightarrow> pr = prompt (results ! i))"
    by blast
  have "0 < length (image_files example_form)" "1 < length (image_files example_form)"
    by (simp_all add: example_files)
  with r(3) have "prompt (results ! 0) = js ''hi''" "prompt (results ! 1) = fallback_prompt"
    by (simp_all add: trim_def js_def isWhiteSpace_def)
  with r(1,2) example_valid show ?thesis by (auto simp: example_files)
qed

text \<open>
  C6 as stated fails: the item prompt \<^verbatim>\<open>" hi "\<close> is not blank after trimming, and
  the prompt recorded and passed to the generation call is \<^verbatim>\<open>"hi"\<close>, not the item's
  own prompt.
\<close>

theorem own_prompt_untrimmed_counterexample:
  "JSON_parse example_platform (prompts_source example_form) = Some (JArray [JString (js '' hi '')])
   \<and> trim (js '' hi '') \<noteq> []
   \<and> POST example_platform example_world example_form =
     (Inr \<lparr>status = 200,
           body = ResultsBody
             [\<lparr>filename = js ''a.png'', prompt = js ''hi'',
               entry_text = Some (js ''A trumpet''), entry_error = None\<rparr>,
              \<lparr>filename = js ''b.png'', prompt = fallback_prompt,
               entry_text = None, entry_error = Some (js ''boom'')\<rparr>]\<rparr>,
      [CallWriteFile (js ''/tmp/u0-a.png'') [1, 2],
       CallUpload (Some (js ''k1'')) (js ''/tmp/u0-a.png''),
       CallGenerateContent (Some (js ''k1'')) fallback_model (js ''hi'') (js ''files/1'')
         (js ''image/png''),
       CallUnlink (js ''/tmp/u0-a.png''),
       CallWriteFile (js ''/tmp/u0-b.png'') [1, 2],
       CallUpload (Some (js ''k1'')) (js ''/tmp/u0-b.png''),
       CallUnlink (js ''/tmp/u0-b.png'')])
   \<and> js ''hi'' \<noteq> js '' hi ''"
  using example_valid(2) example_run by (simp add: trim_def js_def isWhiteSpace_def)

section \<open>Text extraction\<close>

text \<open>
  C7. \<^verbatim>\<open>ensureText\<close> returns a string member \<^verbatim>\<open>text\<close> as it is, the result of a
  callable \<^verbatim>\<open>text\<close>, and otherwise the non-empty texts of the parts of the first
  candidate, joined by newlines, under the \<^verbatim>\<open>response\<close> envelope or, when that has
  none, at the top level. The fragments \<^verbatim>\<open>Hello\<close>, empty, \<^verbatim>\<open>World\<close> give
  \<^verbatim>\<open>Hello\nWorld\<close>; an absent response and a response without text give the empty
  string.
\<close>

theorem ensureText_shapes:
  "ensureText None = Inr []
   \<and> ensureText (Some \<lparr>response_text = Some (TextString s), response_response = e,
                       response_candidates = c\<rparr>) = Inr s
   \<and> ensureText (Some \<lparr>response_text = Some (TextFunction (Inr s)), response_response = e,
                       response_candidates = c\<rparr>) = Inr s
   \<and> ensureText (Some \<lparr>response_text = None,
                       response_response =
                         Some \<lparr>envelope_candidates =
                                 Some (\<lparr>content = Some \<lparr>parts = Some ps\<rparr>\<rparr> # rest)\<rparr>,
                       response_candidates = c\<rparr>)
       = Inr (join [0x0A] (filter (\<lambda>t. t \<noteq> []) (map (\<lambda>part. nullish (part_text part) []) ps)))
   \<and> ensureText (Some \<lparr>response_text = None, response_response = None,
                       response_candidates =
                         Some (\<lparr>content = Some \<lparr>parts = Some ps\<rparr>\<rparr> # rest)\<rparr>)
       = Inr (join [0x0A] (filter (\<lambda>t. t \<noteq> []) (map (\<lambda>part. nullish (part_text part) []) ps)))
   \<and> ensureText (Some \<lparr>response_text = None,
                       response_response = Some \<lparr>envelope_candidates = None\<rparr>,
                       response_candidates =
                         Some (\<lparr>content = Some \<lparr>parts = Some ps\<rparr>\<rparr> # rest)\<rparr>)
       = Inr (join [0x0A] (filter (\<lambda>t. t \<noteq> []) (map (\<lambda>part. nullish (part_text part) []) ps)))
   \<and> ensureText (Some \<lparr>response_text = None, response_response = None,
                       response_candidates = None\<rparr>) = Inr []
   \<and> (map part_text ps = [Some (js ''Hello''), Some [], Some (js ''World'')] \<longrightarrow>
        ensureText (Some \<lparr>response_text = None, response_response = None,
                       response_candidates =
                         Some (\<lparr>content = Some \<lparr>parts = Some ps\<rparr>\<rparr> # rest)\<rparr>)
          = Inr (js ''Hello'' @ [0x0A] @ js ''World''))"
proof -
  have t: "truthy = (\<lambda>t. t \<noteq> [])" by (simp add: truthy_def fun_eq_iff)
  have ex: "join [0x0A] (filter (\<lambda>t. t \<noteq> []) (map (\<lambda>part. nullish (part_text part) []) ps))
              = js ''Hello'' @ [0x0A] @ js ''World''"
    if "map part_text ps = [Some (js ''Hello''), Some [], Some (js ''World'')]"
  proof -
    have "map (\<lambda>part. nullish (part_text part) []) ps = map (\<lambda>x. nullish x []) (map part_text ps)"
      by simp
    also have "\<dots> = [js ''Hello'', [], js ''World'']" by (simp add: that nullish_def)
    finally show ?thesis by (simp add: js_def)
  qed
  show ?thesis
    by (simp add: ensureText_def first_parts_def nullish_def t ex [unfolded nullish_def])
qed

theorem ensureText_shapes_witness:
  "ensureText (Some \<lparr>response_text = None, response_response = None,
                      response_candidates =
                        Some [\<lparr>content = Some \<lparr>parts = Some
                                  [\<lparr>part_text = Some (js ''Hello'')\<rparr>, \<lparr>part_text = Some []\<rparr>,
                                   \<lparr>part_text = Some (js ''World'')\<rparr>]\<rparr>\<rparr>]\<rparr>)
     = Inr (js ''Hello'' @ [0x0A] @ js ''World'')
   \<and> ensureText None = Inr []"
  using ensureText_shapes [of "[]" None None
      "[\<lparr>part_text = Some (js ''Hello'')\<rparr>, \<lparr>part_text = Some []\<rparr>, \<lparr>part_text = Some (js ''World'')\<rparr>]"
      "[]"]
  by (simp add: nullish_def js_def)

section \<open>Upload responses without a usable reference\<close>

lemma process_item_unusable_reference:
  assumes "arrayBuffer w f = Inr buffer"
    and "writeFile w (tempPath_of pf w f) buffer = None"
    and "upload w (pickKey keys (Math_random w)) (tempPath_of pf w f) = Inr up"
    and "ref_uri (fileRef up f) = None \<or> ref_uri (fileRef up f) = Some []
         \<or> ref_mimeType (fileRef up f) = []"
  shows "process_item pf w keys model p f =
           (\<lparr>filename = file_name f, prompt = p, entry_text = None,
             entry_error = Some msg_upload_failed\<rparr>,
            [CallWriteFile (tempPath_of pf w f) buffer,
             CallUpload (pickKey keys (Math_random w)) (tempPath_of pf w f),
             CallUnlink (tempPath_of pf w f)])"
  using assms
  by (auto simp: process_item_def try_block_def Let_def nullish_def truthy_def error_message_def)

text \<open>
  C8, as the code has it. The reference of an item is the \<^verbatim>\<open>file\<close> member of the
  upload response when there is one, and otherwise the response's own \<^verbatim>\<open>uri\<close> with
  its \<^verbatim>\<open>mimeType\<close>, for which the type of the uploaded file stands in when it is
  absent. For every item of a valid batch that is staged, whose upload call returns and
  whose reference has no URI, an empty URI or an empty media type, no generation call is made and the
  entry of the item has no text and the handler's fixed upload-failure message as its
  error.
\<close>

theorem unusable_upload_reference_fails:
  assumes "image_files formData \<noteq> []"
    and "JSON_parse pf (prompts_source formData) = Some (JArray (map JString ss))"
    and "defaultPrompt_of formData = Inr d"
    and "model_of formData = Inr m"
    and "allKeys pf formData \<noteq> []"
    and "i < length (image_files formData)"
    and "arrayBuffer (world i) (image_files formData ! i) = Inr buffer"
    and "writeFile (world i) (tempPath_of pf (world i) (image_files formData ! i)) buffer = None"
    and "upload (world i) (pickKey (allKeys pf formData) (Math_random (world i)))
           (tempPath_of pf (world i) (image_files formData ! i)) = Inr up"
    and "ref_uri (fileRef up (image_files formData ! i)) = None
         \<or> ref_uri (fileRef up (image_files formData ! i)) = Some []
         \<or> ref_mimeType (fileRef up (image_files formData ! i)) = []"
  shows "\<exists>results calls.
           POST pf world formData = (Inr \<lparr>status = 200, body = ResultsBody results\<rparr>, calls)
           \<and> length results = length (image_files formData)
           \<and> filename (results ! i) = file_name (image_files formData ! i)
           \<and> entry_text (results ! i) = None
           \<and> entry_error (results ! i) = Some msg_upload_failed
           \<and> (\<forall>k mo pr u mt.
                 CallGenerateContent k mo pr u mt
                   \<notin> set (snd (process_item pf (world i) (allKeys pf formData) m
                                 (prompt (results ! i)) (image_files formData ! i))))"
proof -
  define p where "p = (\<lambda>i. or_else (if i < length ss then Some (trim (ss ! i)) else None) d)"
  define run where
    "run = (\<lambda>i. process_item pf (world i) (allKeys pf formData) m (p i) (image_files formData ! i))"
  define results where "results = map (\<lambda>i. fst (run i)) [0..<length (image_files formData)]"
  have prompts: "\<forall>i<length (image_files formData). item_prompt (JArray (map JString ss)) i d = Inr (p i)"
    by (simp add: item_prompt_strings p_def)
  have post: "POST pf world formData =
      (Inr \<lparr>status = 200, body = ResultsBody results\<rparr>,
       concat (map (\<lambda>i. snd (run i)) [0..<length (image_files formData)]))"
    using POST_runs [OF assms(1-5) prompts, of world] by (simp add: run_def results_def)
  have at: "results ! i = fst (run i)" using assms(6) by (simp add: results_def)
  have item: "run i = (\<lparr>filename = file_name (image_files formData ! i), prompt = p i,
             entry_text = None, entry_error = Some msg_upload_failed\<rparr>,
            [CallWriteFile (tempPath_of pf (world i) (image_files formData ! i)) buffer,
             CallUpload (pickKey (allKeys pf formData) (Math_random (world i)))
               (tempPath_of pf (world i) (image_files formData ! i)),
             CallUnlink (tempPath_of pf (world i) (image_files formData ! i))])"
    unfolding run_def by (rule process_item_unusable_reference [OF assms(7-10)])
  have "length results = length (image_files formData)" by (simp add: results_def)
  moreover have "filename (results ! i) = file_name (image_files formData ! i)"
    "entry_text (results ! i) = None" "entry_error (results ! i) = Some msg_upload_failed"
    "prompt (results ! i) = p i"
    by (simp_all add: at item)
  moreover from item this(4) have "\<forall>k mo pr u mt.
                 CallGenerateContent k mo pr u mt
                   \<notin> set (snd (process_item pf (world i) (allKeys pf formData) m
                                 (prompt (results ! i)) (image_files formData ! i)))"
    by (simp add: run_def)
  ultimately show ?thesis using post by blast
qed

theorem unusable_upload_reference_fails_witness:
  "image_files example_form \<noteq> []
   \<and> JSON_parse example_platform (prompts_source example_form)
       = Some (JArray (map JString [js '' hi '']))
   \<and> defaultPrompt_of example_form = Inr fallback_prompt
   \<and> model_of example_form = Inr fallback_model
   \<and> allKeys example_platform example_form \<noteq> []
   \<and> ref_mimeType (fileRef example_wrapped (image_files example_form ! 0)) = []
   \<and> (\<exists>results calls.
         POST example_platform example_world_wrapped example_form =
           (Inr \<lparr>status = 200, body = ResultsBody results\<rparr>, calls)
         \<and> length results = 2
         \<and> entry_text (results ! 0) = None
         \<and> entry_error (results ! 0) = Some msg_upload_failed)"
proof -
  let ?world = "example_world_wrapped"
  have i: "0 < length (image_files example_form)" by (simp add: example_files)
  have a: "arrayBuffer (?world 0) (image_files example_form ! 0) = Inr [1, 2]"
    by (simp add: example_files) (simp add: example_defs example_world_wrapped_def)
  have w: "writeFile (?world 0) (tempPath_of example_platform (?world 0) (image_files example_form ! 0)) [1, 2] = None"
    by (simp add: example_defs example_world_wrapped_def)
  have u: "upload (?world 0) (pickKey (allKeys example_platform example_form) (Math_random (?world 0)))
           (tempPath_of example_platform (?world 0) (image_files example_form ! 0)) = Inr example_wrapped"
    by (simp add: example_item_def example_world_wrapped_def)
  have m: "ref_mimeType (fileRef example_wrapped (image_files example_form ! 0)) = []"
    by (simp add: fileRef_def example_wrapped_def)
  then have r: "ref_uri (fileRef example_wrapped (image_files example_form ! 0)) = None
         \<or> ref_uri (fileRef example_wrapped (image_files example_form ! 0)) = Some []
         \<or> ref_mimeType (fileRef example_wrapped (image_files example_form ! 0)) = []"
    by simp
  from unusable_upload_reference_fails
    [where world = example_world_wrapped and i = 0, OF example_valid i a w u r]
  show ?thesis using example_valid m by (auto simp: example_files)
qed

text \<open>
  C8 as stated fails: the upload response of the first image has a URI and no media
  type, and the item is described, not failed.
\<close>

theorem missing_media_type_counterexample:
  "upload (example_world 0) (Some (js ''k1'')) (js ''/tmp/u0-a.png'') = Inr example_flat
   \<and> upload_file example_flat = None
   \<and> upload_mimeType example_flat = None
   \<and> POST example_platform example_world example_form =
     (Inr \<lparr>status = 200,
           body = ResultsBody
             [\<lparr>filename = js ''a.png'', prompt = js ''hi'',
               entry_text = Some (js ''A trumpet''), entry_error = None\<rparr>,
              \<lparr>filename = js ''b.png'', prompt = fallback_prompt,
               entry_text = None, entry_error = Some (js ''boom'')\<rparr>]\<rparr>,
      [CallWriteFile (js ''/tmp/u0-a.png'') [1, 2],
       CallUpload (Some (js ''k1'')) (js ''/tmp/u0-a.png''),
       CallGenerateContent (Some (js ''k1'')) fallback_model (js ''hi'') (js ''files/1'')
         (js ''image/png''),
       CallUnlink (js ''/tmp/u0-a.png''),
       CallWriteFile (js ''/tmp/u0-b.png'') [1, 2],
       CallUpload (Some (js ''k1'')) (js ''/tmp/u0-b.png''),
       CallUnlink (js ''/tmp/u0-b.png'')])"
  using example_run by (simp add: example_world_def example_item_def example_flat_def)

section \<open>Removal of the staging file\<close>

lemma try_block_no_unlink: "CallUnlink q \<notin> set (snd (try_block w keys model p tp f))"
  by (auto simp: try_block_def Let_def split: sum.splits option.splits if_splits)

lemma process_item_calls:
  "snd (process_item pf w keys model p f) =
     snd (try_block w keys model p (tempPath_of pf w f) f) @ [CallUnlink (tempPath_of pf w f)]"
  by (simp add: process_item_def Let_def split_beta)

lemma try_block_unlink_irrelevant:
  "try_block (w\<lparr>unlink := u\<rparr>) keys model p tp f = try_block w keys model p tp f"
  by (simp add: try_block_def Let_def split: sum.split option.split)

lemma process_item_unlink_irrelevant:
  "process_item pf (w\<lparr>unlink := u\<rparr>) keys model p f = process_item pf w keys model p f"
  by (simp add: process_item_def try_block_unlink_irrelevant tempPath_of_def)

lemma loop_unlink_irrelevant:
  "loop pf (\<lambda>i. (world i)\<lparr>unlink := u i\<rparr>) keys model d prompts index files results calls =
   loop pf world keys model d prompts index files results calls"
  by (induction files arbitrary: index results calls)
     (simp_all add: process_item_unlink_irrelevant split: sum.split)

lemma POST_unlink_irrelevant:
  "POST pf (\<lambda>i. (world i)\<lparr>unlink := u i\<rparr>) formData = POST pf world formData"
  by (simp add: POST_def Let_def loop_unlink_irrelevant split: sum.split option.split)

text \<open>
  C9. In every valid batch the calls of the handler are the calls of the first item,
  then those of the second, and so on; the calls of each item end with the
  \<^verbatim>\<open>unlink\<close> of that item's staging path, whatever happened before, and hold no other
  \<^verbatim>\<open>unlink\<close>. What the \<^verbatim>\<open>unlink\<close> calls do, a rejection included, changes neither
  the response nor the calls of any request.
\<close>

theorem staging_file_unlinked_after_each_item:
  assumes "image_files formData \<noteq> []"
    and "JSON_parse pf (prompts_source formData) = Some (JArray (map JString ss))"
    and "defaultPrompt_of formData = Inr d"
    and "model_of formData = Inr m"
    and "allKeys pf formData \<noteq> []"
  shows "\<exists>results.
           POST pf world formData =
             (Inr \<lparr>status = 200, body = ResultsBody results\<rparr>,
              concat (map (\<lambda>i. snd (process_item pf (world i) (allKeys pf formData) m
                                     (prompt (results ! i)) (image_files formData ! i)))
                        [0..<length (image_files formData)]))
           \<and> (\<forall>i<length (image_files formData). \<exists>before.
                 snd (process_item pf (world i) (allKeys pf formData) m
                        (prompt (results ! i)) (image_files formData ! i)) =
                   before @ [CallUnlink (tempPath_of pf (world i) (image_files formData ! i))]
                 \<and> (\<forall>q. CallUnlink q \<notin> set before))
           \<and> (\<forall>u. POST pf (\<lambda>i. (world i)\<lparr>unlink := u i\<rparr>) formData = POST pf world formData)"
proof -
  define n where "n = length (image_files formData)"
  define p where "p = (\<lambda>i. or_else (if i < length ss then Some (trim (ss ! i)) else None) d)"
  define run where
    "run = (\<lambda>i. process_item pf (world i) (allKeys pf formData) m (p i) (image_files formData ! i))"
  define results where "results = map (\<lambda>i. fst (run i)) [0..<n]"
  have prompts: "\<forall>i<length (image_files formData). item_prompt (JArray (map JString ss)) i d = Inr (p i)"
    by (simp add: item_prompt_strings p_def)
  have post: "POST pf world formData =
      (Inr \<lparr>status = 200, body = ResultsBody results\<rparr>, concat (map (\<lambda>i. snd (run i)) [0..<n]))"
    using POST_runs [OF assms prompts, of world] by (simp add: run_def n_def results_def)
  have pr: "prompt (results ! i) = p i" if "i < n" for i
    using that by (simp add: results_def run_def process_item_entry)
  have calls: "concat (map (\<lambda>i. snd (run i)) [0..<n]) =
      concat (map (\<lambda>i. snd (process_item pf (world i) (allKeys pf formData) m
                                            (prompt (results ! i)) (image_files formData ! i))) [0..<n])"
    by (rule arg_cong [where f = concat], rule map_cong) (simp_all add: pr run_def)
  have shape: "\<forall>i<n. \<exists>before.
                 snd (process_item pf (world i) (allKeys pf formData) m
                        (prompt (results ! i)) (image_files formData ! i)) =
                   before @ [CallUnlink (tempPath_of pf (world i) (image_files formData ! i))]
                 \<and> (\<forall>q. CallUnlink q \<notin> set before)"
    unfolding process_item_calls using try_block_no_unlink by blast
  have same: "\<forall>u. POST pf (\<lambda>i. (world i)\<lparr>unlink := u i\<rparr>) formData = POST pf world formData"
    by (simp add: POST_unlink_irrelevant)
  show ?thesis
    apply (rule exI [of _ results])
    apply (insert post [unfolded calls] shape same)
    apply (unfold n_def)
    apply (intro conjI; assumption)
    done
qed

theorem staging_file_unlinked_after_each_item_witness:
  "image_files example_form \<noteq> []
   \<and> JSON_parse example_platform (prompts_source example_form)
       = Some (JArray (map JString [js '' hi '']))
   \<and> defaultPrompt_of example_form = Inr fallback_prompt
   \<and> model_of example_form = Inr fallback_model
   \<and> allKeys example_platform example_form \<noteq> []
   \<and> unlink (example_world 0) (js ''/tmp/u0-a.png'') = Some NonError
   \<and> (\<exists>results.
         fst (POST example_platform example_world example_form) =
           Inr \<lparr>status = 200, body = ResultsBody results\<rparr>
         \<and> last (snd (process_item example_platform (example_world 0)
                        (allKeys example_platform example_form) fallback_model
                        (prompt (results ! 0)) (image_files example_form ! 0)))
             = CallUnlink (js ''/tmp/u0-a.png'')
         \<and> last (snd (process_item example_platform (example_world 1)
                        (allKeys example_platform example_form) fallback_model
                        (prompt (results ! 1)) (image_files example_form ! 1)))
             = CallUnlink (js ''/tmp/u0-b.png''))"
proof -
  from staging_file_unlinked_after_each_item [OF example_valid, of example_world]
  obtain results where r:
    "POST example_platform example_world example_form =
       (Inr \<lparr>status = 200, body = ResultsBody results\<rparr>,
        concat (map (\<lambda>i. snd (process_item example_platform (example_world i)
                                 (allKeys example_platform example_form) fallback_model
                                 (prompt (results ! i)) (image_files example_form ! i)))
                  [0..<length (image_files example_form)]))"
    "\<forall>i<length (image_files example_form). \<exists>before.
        snd (process_item example_platform (example_world i)
               (allKeys example_platform example_form) fallback_model
               (prompt (results ! i)) (image_files example_form ! i)) =
          before @ [CallUnlink (tempPath_of example_platform (example_world i)
                                 (image_files example_form ! i))]
        \<and> (\<forall>q. CallUnlink q \<notin> set before)"
    by blast
  have paths: "tempPath_of example_platform (example_world 0) (image_files example_form ! 0) = js ''/tmp/u0-a.png''"
    "tempPath_of example_platform (example_world 1) (image_files example_form ! 1) = js ''/tmp/u0-b.png''"
    by (simp_all add: example_files) (simp_all add: example_defs tempPath_of_def js_def)
  have "0 < length (image_files example_form)" "1 < length (image_files example_form)"
    by (simp_all add: example_files)
  with r(2) paths have l:
    "last (snd (process_item example_platform (example_world 0)
                        (allKeys example_platform example_form) fallback_model
                        (prompt (results ! 0)) (image_files example_form ! 0)))
             = CallUnlink (js ''/tmp/u0-a.png'')"
    "last (snd (process_item example_platform (example_world 1)
                        (allKeys example_platform example_form) fallback_model
                        (prompt (results ! 1)) (image_files example_form ! 1)))
             = CallUnlink (js ''/tmp/u0-b.png'')"
    by (metis last_snoc)+
  from r(1) have p: "fst (POST example_platform example_world example_form) =
       Inr \<lparr>status = 200, body = ResultsBody results\<rparr>"
    by simp
  have "\<exists>results.
         fst (POST example_platform example_world example_form) =
           Inr \<lparr>status = 200, body = ResultsBody results\<rparr>
         \<and> last (snd (process_item example_platform (example_world 0)
                        (allKeys example_platform example_form) fallback_model
                        (prompt (results ! 0)) (image_files example_form ! 0)))
             = CallUnlink (js ''/tmp/u0-a.png'')
         \<and> last (snd (process_item example_platform (example_world 1)
                        (allKeys example_platform example_form) fallback_model
                        (prompt (results ! 1)) (image_files example_form ! 1)))
             = CallUnlink (js ''/tmp/u0-b.png'')"
    by (rule exI [of _ results]) (intro conjI p l)
  moreover have "unlink (example_world 0) (js ''/tmp/u0-a.png'') = Some NonError"
    by (simp add: example_defs)
  ultimately show ?thesis using example_valid by simp
qed

section \<open>The media type of the reference\<close>

text \<open>
  C10, as the code has it. When an item is staged and the upload response has no \<^verbatim>\<open>file\<close> member, a
  non-empty \<^verbatim>\<open>uri\<close> and no \<^verbatim>\<open>mimeType\<close>, the reference takes the type of the
  uploaded file as its media type: the generation call is made with it when it is not
  empty, and the item fails with the upload-failure message when it is empty. A
  \<^verbatim>\<open>file\<close> member is taken as it is, and so is a \<^verbatim>\<open>mimeType\<close> that is present:
  neither is replaced by the type of the uploaded file.
\<close>

theorem flat_upload_falls_back_to_file_type:
  assumes "arrayBuffer w f = Inr buffer"
    and "writeFile w (tempPath_of pf w f) buffer = None"
    and "upload w (pickKey keys (Math_random w)) (tempPath_of pf w f) = Inr up"
    and "upload_file up = None"
    and "upload_uri up = Some u"
    and "u \<noteq> []"
    and "upload_mimeType up = None"
  shows "fileRef up f = \<lparr>ref_uri = Some u, ref_mimeType = file_type f\<rparr>
         \<and> (file_type f \<noteq> [] \<longrightarrow>
              CallGenerateContent (pickKey keys (Math_random w)) model p u (file_type f)
                \<in> set (snd (process_item pf w keys model p f)))
         \<and> (file_type f = [] \<longrightarrow>
              fst (process_item pf w keys model p f) =
                \<lparr>filename = file_name f, prompt = p, entry_text = None,
                 entry_error = Some msg_upload_failed\<rparr>)
         \<and> (\<forall>up' g. upload_file up' = Some g \<longrightarrow>
                fileRef up' f = \<lparr>ref_uri = Some (uri g), ref_mimeType = mimeType g\<rparr>)
         \<and> (\<forall>up' mt. upload_file up' = None \<and> upload_mimeType up' = Some mt \<longrightarrow>
                fileRef up' f = \<lparr>ref_uri = upload_uri up', ref_mimeType = mt\<rparr>)"
proof -
  have r: "fileRef up f = \<lparr>ref_uri = Some u, ref_mimeType = file_type f\<rparr>"
    using assms(4,5,7) by (simp add: fileRef_def nullish_def)
  have "CallGenerateContent (pickKey keys (Math_random w)) model p u (file_type f)
          \<in> set (snd (process_item pf w keys model p f))" if "file_type f \<noteq> []"
    using assms(1-3,6) that r
    by (simp add: process_item_def try_block_def Let_def nullish_def truthy_def split_beta
        split: sum.split)
  moreover have "fst (process_item pf w keys model p f) =
                \<lparr>filename = file_name f, prompt = p, entry_text = None,
                 entry_error = Some msg_upload_failed\<rparr>" if "file_type f = []"
    using process_item_unusable_reference [OF assms(1-3), of model p] r that by simp
  moreover have "\<forall>up' g. upload_file up' = Some g \<longrightarrow>
                fileRef up' f = \<lparr>ref_uri = Some (uri g), ref_mimeType = mimeType g\<rparr>"
    by (simp add: fileRef_def)
  moreover have "\<forall>up' mt. upload_file up' = None \<and> upload_mimeType up' = Some mt \<longrightarrow>
                fileRef up' f = \<lparr>ref_uri = upload_uri up', ref_mimeType = mt\<rparr>"
    by (simp add: fileRef_def nullish_def)
  ultimately show ?thesis using r by blast
qed

theorem flat_upload_falls_back_to_file_type_witness:
  "arrayBuffer (example_item (Inr example_flat)) (example_file ''a.png'') = Inr [1, 2]
   \<and> upload_file example_flat = None
   \<and> upload_uri example_flat = Some (js ''files/1'')
   \<and> upload_mimeType example_flat = None
   \<and> fileRef example_flat (example_file ''a.png'') =
       \<lparr>ref_uri = Some (js ''files/1''), ref_mimeType = js ''image/png''\<rparr>
   \<and> CallGenerateContent (Some (js ''k1'')) fallback_model (js ''hi'') (js ''files/1'')
         (js ''image/png'')
       \<in> set (snd (process_item example_platform (example_item (Inr example_flat)) [js ''k1'']
                     fallback_model (js ''hi'') (example_file ''a.png'')))"
proof -
  let ?w = "example_item (Inr example_flat)"
  let ?f = "example_file ''a.png''"
  have a: "arrayBuffer ?w ?f = Inr [1, 2]" by (simp add: example_defs)
  have w: "writeFile ?w (tempPath_of example_platform ?w ?f) [1, 2] = None"
    by (simp add: example_defs)
  have u: "upload ?w (pickKey [js ''k1''] (Math_random ?w)) (tempPath_of example_platform ?w ?f)
             = Inr example_flat"
    by (simp add: example_item_def)
  have s: "upload_file example_flat = None" "upload_uri example_flat = Some (js ''files/1'')"
    "js ''files/1'' \<noteq> []" "upload_mimeType example_flat = None"
    by (simp_all add: example_flat_def js_def)
  have k: "pickKey [js ''k1''] (Math_random ?w) = Some (js ''k1'')"
    by (simp add: pickKey_def example_item_def)
  have t: "file_type ?f = js ''image/png''" "js ''image/png'' \<noteq> []"
    by (simp_all add: example_file_def js_def)
  from flat_upload_falls_back_to_file_type [OF a w u s, of fallback_model "js ''hi''"]
  show ?thesis using a s(1,2,4) by (simp add: k t)
qed

text \<open>
  C10 as stated fails: a response in the wrapped shape with a URI and an empty media
  type fails the item, although the uploaded file has the type \<^verbatim>\<open>image/png\<close>.
\<close>

theorem wrapped_upload_no_fallback_counterexample:
  "upload_file example_wrapped = Some \<lparr>uri = js ''files/1'', mimeType = []\<rparr>
   \<and> file_type (example_file ''a.png'') = js ''image/png''
   \<and> POST example_platform example_world_wrapped
        [(js ''images'', EntryFile (example_file ''a.png''))] =
     (Inr \<lparr>status = 200,
           body = ResultsBody
             [\<lparr>filename = js ''a.png'', prompt = fallback_prompt,
               entry_text = None, entry_error = Some msg_upload_failed\<rparr>]\<rparr>,
      [CallWriteFile (js ''/tmp/u0-a.png'') [1, 2],
       CallUpload (Some (js ''k1'')) (js ''/tmp/u0-a.png''),
       CallUnlink (js ''/tmp/u0-a.png'')])"
  by (simp add: POST_def eval_defs example_wrapped_def example_world_wrapped_def item_defs
      fallback_model_def)

end
